theory Spec2Isabelle
  imports Main "HOL-Library.Word"
begin

section \<open>Machine integers\<close>

text \<open>
  Both source files keep the counter in a C \<open>int\<close>. It is modelled as a 32-bit word read
  in two's complement: the comparisons of the source (\<open>value > 0\<close>,
  \<open>value <= MAX_DURATION\<close>) are the signed ones, \<open><s\<close> and \<open>\<le>s\<close>.
  \<open>timer_value--\<close> is guarded by \<open>timer_value > 0\<close> and cannot overflow.
  \<open>timer_value++\<close> has no such guard: at \<open>INT_MAX\<close> the C standard leaves it undefined,
  and the word addition of the model wraps there. Every statement below about an
  increment excludes that one value.
\<close>

type_synonym c_int = "32 word"

definition INT_MAX :: c_int where
  "INT_MAX = 2147483647"

section \<open>The variant with a mode enumeration (src/timer.c)\<close>

definition MAX_DURATION :: c_int where
  "MAX_DURATION = 10"

datatype TimerMode = MODE_DISABLED | MODE_COUNTDOWN | MODE_STOPWATCH

record TimerState =
  timer_value :: c_int
  timer_enabled :: bool
  interrupt_flag :: bool
  timer_mode :: TimerMode

text \<open>
  Every function of the file takes a pointer to the state, writes through it and returns
  \<open>void\<close>: the model takes the state and returns the state after the call, and there is
  no other result.
\<close>

definition initTimer :: "TimerState \<Rightarrow> TimerState" where
  "initTimer state =
     state\<lparr>timer_value := 0, timer_enabled := False, interrupt_flag := False,
           timer_mode := MODE_DISABLED\<rparr>"

definition setCountdownTimer :: "TimerState \<Rightarrow> c_int \<Rightarrow> TimerState" where
  "setCountdownTimer state v =
     (if 0 <s v \<and> v \<le>s MAX_DURATION
      then state\<lparr>timer_value := v, timer_enabled := True, interrupt_flag := False,
                 timer_mode := MODE_COUNTDOWN\<rparr>
      else state)"

definition decrementTimer :: "TimerState \<Rightarrow> TimerState" where
  "decrementTimer state =
     (if timer_enabled state \<and> timer_mode state = MODE_COUNTDOWN \<and> 0 <s timer_value state
      then state\<lparr>timer_value := timer_value state - 1\<rparr>
      else state)"

definition incrementStopwatch :: "TimerState \<Rightarrow> TimerState" where
  "incrementStopwatch state =
     (if timer_enabled state \<and> timer_mode state = MODE_STOPWATCH
      then state\<lparr>timer_value := timer_value state + 1\<rparr>
      else state)"

definition triggerInterrupt :: "TimerState \<Rightarrow> TimerState" where
  "triggerInterrupt state =
     (if timer_enabled state \<and> timer_mode state = MODE_COUNTDOWN \<and> timer_value state = 0
      then state\<lparr>interrupt_flag := True, timer_enabled := False,
                 timer_mode := MODE_DISABLED\<rparr>
      else state)"

definition resetTimer :: "TimerState \<Rightarrow> TimerState" where
  "resetTimer state =
     state\<lparr>timer_value := 0, timer_enabled := False, interrupt_flag := False,
           timer_mode := MODE_DISABLED\<rparr>"

subsection \<open>Call sequences\<close>

text \<open>
  The six functions above are the whole public interface of the file. A caller is a
  sequence of calls, each with its argument; \<open>run\<close> performs them from left to right.
\<close>

datatype timer_call =
    Call_initTimer
  | Call_setCountdownTimer c_int
  | Call_decrementTimer
  | Call_incrementStopwatch
  | Call_triggerInterrupt
  | Call_resetTimer

fun call :: "timer_call \<Rightarrow> TimerState \<Rightarrow> TimerState" where
  "call Call_initTimer state = initTimer state"
| "call (Call_setCountdownTimer v) state = setCountdownTimer state v"
| "call Call_decrementTimer state = decrementTimer state"
| "call Call_incrementStopwatch state = incrementStopwatch state"
| "call Call_triggerInterrupt state = triggerInterrupt state"
| "call Call_resetTimer state = resetTimer state"

fun run :: "timer_call list \<Rightarrow> TimerState \<Rightarrow> TimerState" where
  "run [] state = state"
| "run (c # cs) state = run cs (call c state)"

section \<open>The variant without a mode field (src/unnamed/part_000)\<close>

definition MAX_DURATION_simple :: c_int where
  "MAX_DURATION_simple = 255"

record Timer =
  Timer_value :: c_int
  Timer_enabled :: bool
  Timer_interrupt_flag :: bool

text \<open>
  The fields \<open>value\<close>, \<open>enabled\<close> and \<open>interrupt_flag\<close> of the source's struct
  \<open>Timer\<close> carry the struct's name as a prefix, since \<open>interrupt_flag\<close> is also a field
  of \<open>TimerState\<close> above. The functions that return \<open>bool\<close> return the pair of that
  result and the state after the call. Function names that the two files share carry the
  suffix \<open>_simple\<close> in this variant.
\<close>

definition initTimer_simple :: "Timer \<Rightarrow> Timer" where
  "initTimer_simple timer = timer\<lparr>Timer_value := 0, Timer_enabled := False, Timer_interrupt_flag := False\<rparr>"

definition setTimer :: "Timer \<Rightarrow> c_int \<Rightarrow> bool \<times> Timer" where
  "setTimer timer duration =
     (if 0 <s duration \<and> duration \<le>s MAX_DURATION_simple
      then (True, timer\<lparr>Timer_value := duration, Timer_enabled := True, Timer_interrupt_flag := False\<rparr>)
      else (False, timer))"

definition decrementTimer_simple :: "Timer \<Rightarrow> bool \<times> Timer" where
  "decrementTimer_simple timer =
     (if Timer_enabled timer \<and> 0 <s Timer_value timer
      then (True, timer\<lparr>Timer_value := Timer_value timer - 1\<rparr>)
      else (False, timer))"

definition triggerInterrupt_simple :: "Timer \<Rightarrow> bool \<times> Timer" where
  "triggerInterrupt_simple timer =
     (if Timer_enabled timer \<and> Timer_value timer = 0
      then (True, timer\<lparr>Timer_interrupt_flag := True, Timer_enabled := False\<rparr>)
      else (False, timer))"

definition resetTimer_simple :: "Timer \<Rightarrow> Timer" where
  "resetTimer_simple timer = timer\<lparr>Timer_value := 0, Timer_enabled := False, Timer_interrupt_flag := False\<rparr>"

text \<open>
  The state after one call of \<open>decrementTimer\<close>, for a caller that drops the result
  (\<open>decrementTimer(&t);\<close>); it is what repeated calls iterate.
\<close>

definition decremented :: "Timer \<Rightarrow> Timer" where
  "decremented timer = snd (decrementTimer_simple timer)"

section \<open>State predicates\<close>

text \<open>The range the specification gives to the counter, in the variant of src/timer.c.\<close>

definition within_bounds :: "TimerState \<Rightarrow> bool" where
  "within_bounds s \<longleftrightarrow> 0 \<le>s timer_value s \<and> timer_value s \<le>s MAX_DURATION"

text \<open>A timer in mode \<open>MODE_DISABLED\<close> is not enabled.\<close>

definition disabled_not_enabled :: "TimerState \<Rightarrow> bool" where
  "disabled_not_enabled s \<longleftrightarrow> (timer_mode s = MODE_DISABLED \<longrightarrow> \<not> timer_enabled s)"

section \<open>Signed arithmetic on the counter\<close>

lemma sint_dec: "0 <s (x::c_int) \<Longrightarrow> sint (x - 1) = sint x - 1"
proof -
  assume "0 <s x"
  then have pos: "0 < sint x" by (simp add: word_sless_alt)
  have "sint x < 2 ^ (LENGTH(32) - 1)" by (rule sint_lt)
  then have "sint x < 2147483648" by simp
  with pos show ?thesis
    by (simp add: sint_word_ariths signed_take_bit_int_eq_self)
qed

lemma sint_inc: "(x::c_int) \<noteq> INT_MAX \<Longrightarrow> sint (x + 1) = sint x + 1"
proof -
  assume ne: "x \<noteq> INT_MAX"
  have "sint x < 2 ^ (LENGTH(32) - 1)" by (rule sint_lt)
  then have up: "sint x < 2147483648" by simp
  have "- (2 ^ (LENGTH(32) - 1)) \<le> sint x" by (rule sint_ge)
  then have lo: "- 2147483648 \<le> sint x" by simp
  have "sint x \<noteq> 2147483647"
  proof
    assume "sint x = 2147483647"
    then have "word_of_int (sint x) = (word_of_int 2147483647 :: c_int)" by simp
    then have "x = INT_MAX" by (simp add: INT_MAX_def)
    with ne show False by simp
  qed
  with up lo show ?thesis
    by (simp add: sint_word_ariths signed_take_bit_int_eq_self)
qed

lemma sint_zero_iff: "sint (x::c_int) = 0 \<longleftrightarrow> x = 0"
proof
  assume "sint x = 0"
  then have "word_of_int (sint x) = (word_of_int 0 :: c_int)" by simp
  then show "x = 0" by simp
next
  assume "x = 0"
  then show "sint x = 0" by simp
qed

section \<open>What a call preserves\<close>

lemma call_not_stopwatch:
  "timer_mode s \<noteq> MODE_STOPWATCH \<Longrightarrow> timer_mode (call c s) \<noteq> MODE_STOPWATCH"
  by (cases c)
    (simp_all add: initTimer_def setCountdownTimer_def decrementTimer_def
      incrementStopwatch_def triggerInterrupt_def resetTimer_def)

lemma run_not_stopwatch:
  "timer_mode s \<noteq> MODE_STOPWATCH \<Longrightarrow> timer_mode (run cs s) \<noteq> MODE_STOPWATCH"
  by (induction cs arbitrary: s) (simp_all add: call_not_stopwatch)

lemma decrement_within_bounds: "within_bounds s \<Longrightarrow> within_bounds (decrementTimer s)"
  by (auto simp: within_bounds_def decrementTimer_def word_sle_eq sint_dec word_sless_alt)

lemma setCountdown_within_bounds: "within_bounds s \<Longrightarrow> within_bounds (setCountdownTimer s v)"
  by (auto simp: within_bounds_def setCountdownTimer_def word_sle_eq word_sless_alt)

lemma call_within_bounds:
  "within_bounds s \<Longrightarrow> timer_mode s \<noteq> MODE_STOPWATCH \<Longrightarrow> within_bounds (call c s)"
proof (cases c)
  case Call_initTimer
  then show ?thesis
    by (simp add: within_bounds_def initTimer_def MAX_DURATION_def word_sle_eq)
next
  case (Call_setCountdownTimer v)
  assume "within_bounds s"
  with Call_setCountdownTimer show ?thesis by (simp add: setCountdown_within_bounds)
next
  case Call_decrementTimer
  assume "within_bounds s"
  with Call_decrementTimer show ?thesis by (simp add: decrement_within_bounds)
next
  case Call_incrementStopwatch
  assume "within_bounds s" "timer_mode s \<noteq> MODE_STOPWATCH"
  with Call_incrementStopwatch show ?thesis by (simp add: incrementStopwatch_def)
next
  case Call_triggerInterrupt
  assume "within_bounds s"
  moreover have "timer_value (triggerInterrupt s) = timer_value s"
    by (simp add: triggerInterrupt_def)
  ultimately show ?thesis using Call_triggerInterrupt
    by (simp add: within_bounds_def)
next
  case Call_resetTimer
  then show ?thesis
    by (simp add: within_bounds_def resetTimer_def MAX_DURATION_def word_sle_eq)
qed

lemma run_within_bounds:
  "within_bounds s \<Longrightarrow> timer_mode s \<noteq> MODE_STOPWATCH \<Longrightarrow> within_bounds (run cs s)"
  by (induction cs arbitrary: s) (simp_all add: call_within_bounds call_not_stopwatch)

lemma call_disabled_not_enabled:
  "disabled_not_enabled s \<Longrightarrow> disabled_not_enabled (call c s)"
  by (cases c)
    (simp_all add: disabled_not_enabled_def initTimer_def setCountdownTimer_def
      decrementTimer_def incrementStopwatch_def triggerInterrupt_def resetTimer_def)

lemma run_disabled_not_enabled:
  "disabled_not_enabled s \<Longrightarrow> disabled_not_enabled (run cs s)"
  by (induction cs arbitrary: s) (simp_all add: call_disabled_not_enabled)

section \<open>Counting down\<close>

text \<open>
  An enabled countdown whose counter holds \<open>n\<close> reaches zero after exactly \<open>n\<close> calls of
  \<open>decrementTimer\<close>, and nothing else changes. Induction on \<open>n\<close> with the state
  generalised, the first call peeled off.
\<close>

lemma countdown_runs_out:
  "timer_enabled s \<Longrightarrow> timer_mode s = MODE_COUNTDOWN \<Longrightarrow> sint (timer_value s) = int n \<Longrightarrow>
   (decrementTimer ^^ n) s = s\<lparr>timer_value := 0\<rparr>"
proof (induction n arbitrary: s)
  case 0
  then have "timer_value s = 0" by (simp add: sint_zero_iff)
  then show ?case by simp
next
  case (Suc n)
  from Suc.prems have pos: "0 <s timer_value s" by (simp add: word_sless_alt)
  let ?s' = "s\<lparr>timer_value := timer_value s - 1\<rparr>"
  from Suc.prems pos have step: "decrementTimer s = ?s'" by (simp add: decrementTimer_def)
  from Suc.prems pos have "sint (timer_value ?s') = int n" by (simp add: sint_dec)
  with Suc.prems have "(decrementTimer ^^ n) ?s' = ?s'\<lparr>timer_value := 0\<rparr>"
    by (intro Suc.IH) simp_all
  with step show ?case by (simp add: funpow_swap1)
qed

lemma countdown_runs_out_simple:
  "Timer_enabled t \<Longrightarrow> sint (Timer_value t) = int n \<Longrightarrow>
   (decremented ^^ n) t = t\<lparr>Timer_value := 0\<rparr>"
proof (induction n arbitrary: t)
  case 0
  then have "Timer_value t = 0" by (simp add: sint_zero_iff)
  then show ?case by simp
next
  case (Suc n)
  from Suc.prems have pos: "0 <s Timer_value t" by (simp add: word_sless_alt)
  let ?t' = "t\<lparr>Timer_value := Timer_value t - 1\<rparr>"
  from Suc.prems pos have step: "decremented t = ?t'"
    by (simp add: decremented_def decrementTimer_simple_def)
  from Suc.prems pos have "sint (Timer_value ?t') = int n" by (simp add: sint_dec)
  with Suc.prems have "(decremented ^^ n) ?t' = ?t'\<lparr>Timer_value := 0\<rparr>"
    by (intro Suc.IH) simp_all
  with step show ?case by (simp add: funpow_swap1)
qed

section \<open>The claims\<close>

subsection \<open>C1: incrementing the stopwatch\<close>

text \<open>
  C1 as stated fails: \<open>incrementStopwatch\<close> has no ceiling. In an enabled stopwatch whose
  counter holds \<open>MAX_DURATION\<close> one more call stores 11, which is above the bound.
\<close>

theorem incrementStopwatch_exceeds_MAX_DURATION:
  "timer_value (incrementStopwatch \<lparr>timer_value = 10, timer_enabled = True,
       interrupt_flag = False, timer_mode = MODE_STOPWATCH\<rparr>) = 11 \<and>
   MAX_DURATION = 10 \<and>
   MAX_DURATION <s timer_value (incrementStopwatch \<lparr>timer_value = 10, timer_enabled = True,
       interrupt_flag = False, timer_mode = MODE_STOPWATCH\<rparr>)"
  by (simp add: incrementStopwatch_def MAX_DURATION_def word_sless_alt)

text \<open>
  C1, amended: in every state with mode Stopwatch and enabled set (the counter below
  \<open>INT_MAX\<close>), \<open>incrementStopwatch\<close> adds one to the counter and changes nothing else;
  so a counter below \<open>MAX_DURATION\<close> stays within the bound after the call. There is no
  saturation and no status.
\<close>

theorem incrementStopwatch_adds_one:
  assumes "timer_enabled s" and "timer_mode s = MODE_STOPWATCH"
    and "timer_value s \<noteq> INT_MAX"
  shows "incrementStopwatch s = s\<lparr>timer_value := timer_value s + 1\<rparr> \<and>
         sint (timer_value (incrementStopwatch s)) = sint (timer_value s) + 1 \<and>
         (timer_value s <s MAX_DURATION \<longrightarrow>
            timer_value (incrementStopwatch s) \<le>s MAX_DURATION)"
  using assms by (simp add: incrementStopwatch_def sint_inc word_sless_alt word_sle_eq)

theorem incrementStopwatch_adds_one_witness:
  "timer_enabled \<lparr>timer_value = 9, timer_enabled = True, interrupt_flag = False,
       timer_mode = MODE_STOPWATCH\<rparr> \<and>
   timer_mode \<lparr>timer_value = 9, timer_enabled = True, interrupt_flag = False,
       timer_mode = MODE_STOPWATCH\<rparr> = MODE_STOPWATCH \<and>
   timer_value \<lparr>timer_value = 9, timer_enabled = True, interrupt_flag = False,
       timer_mode = MODE_STOPWATCH\<rparr> \<noteq> INT_MAX \<and>
   incrementStopwatch \<lparr>timer_value = 9, timer_enabled = True, interrupt_flag = False,
       timer_mode = MODE_STOPWATCH\<rparr> =
     \<lparr>timer_value = 10, timer_enabled = True, interrupt_flag = False,
       timer_mode = MODE_STOPWATCH\<rparr> \<and>
   timer_value (incrementStopwatch \<lparr>timer_value = 9, timer_enabled = True,
       interrupt_flag = False, timer_mode = MODE_STOPWATCH\<rparr>) \<le>s MAX_DURATION"
  using incrementStopwatch_adds_one [of "\<lparr>timer_value = 9, timer_enabled = True,
       interrupt_flag = False, timer_mode = MODE_STOPWATCH\<rparr>"]
  by (simp add: INT_MAX_def MAX_DURATION_def word_sless_alt word_sle_eq)

subsection \<open>C2: the counter stays within its range\<close>

text \<open>
  C2: after \<open>initTimer\<close> (whatever the memory held before) and any sequence of calls of
  the six functions of src/timer.c, with any arguments, the counter is at least 0 and at
  most \<open>MAX_DURATION\<close>. Every prefix of a call sequence is a call sequence, so the bound
  holds after every call.
\<close>

theorem value_within_bounds:
  "0 \<le>s timer_value (run cs (initTimer s0)) \<and>
   timer_value (run cs (initTimer s0)) \<le>s MAX_DURATION"
proof -
  have "within_bounds (initTimer s0)"
    by (simp add: within_bounds_def initTimer_def MAX_DURATION_def word_sle_eq)
  moreover have "timer_mode (initTimer s0) \<noteq> MODE_STOPWATCH"
    by (simp add: initTimer_def)
  ultimately have "within_bounds (run cs (initTimer s0))"
    by (rule run_within_bounds)
  then show ?thesis by (simp add: within_bounds_def)
qed

theorem value_within_bounds_witness:
  "timer_value (run [Call_setCountdownTimer 10, Call_incrementStopwatch, Call_decrementTimer]
      (initTimer \<lparr>timer_value = 77, timer_enabled = True, interrupt_flag = True,
         timer_mode = MODE_STOPWATCH\<rparr>)) = 9 \<and>
   0 \<le>s timer_value (run [Call_setCountdownTimer 10, Call_incrementStopwatch, Call_decrementTimer]
      (initTimer \<lparr>timer_value = 77, timer_enabled = True, interrupt_flag = True,
         timer_mode = MODE_STOPWATCH\<rparr>)) \<and>
   timer_value (run [Call_setCountdownTimer 10, Call_incrementStopwatch, Call_decrementTimer]
      (initTimer \<lparr>timer_value = 77, timer_enabled = True, interrupt_flag = True,
         timer_mode = MODE_STOPWATCH\<rparr>)) \<le>s MAX_DURATION"
  using value_within_bounds
    [of "[Call_setCountdownTimer 10, Call_incrementStopwatch, Call_decrementTimer]"
      "\<lparr>timer_value = 77, timer_enabled = True, interrupt_flag = True,
         timer_mode = MODE_STOPWATCH\<rparr>"]
  by (simp add: initTimer_def setCountdownTimer_def decrementTimer_def incrementStopwatch_def
      MAX_DURATION_def word_sless_alt word_sle_eq)

subsection \<open>C3: a countdown runs out and fires\<close>

text \<open>
  C3 as stated fails: \<open>triggerInterrupt\<close> of src/timer.c returns \<open>void\<close>, so the check
  that fires returns no "true". All the caller has after the call is the state, and that
  does not tell a check that fired from one that did not: after a countdown of 3 and
  three decrements the guard of \<open>triggerInterrupt\<close> holds and the call fires, and it
  leaves the very state that a call on a disabled timer, which does not fire, leaves.
\<close>

theorem triggerInterrupt_fired_returns_nothing:
  "timer_enabled ((decrementTimer ^^ 3) (setCountdownTimer (initTimer \<lparr>timer_value = 7,
       timer_enabled = True, interrupt_flag = True, timer_mode = MODE_STOPWATCH\<rparr>) 3)) \<and>
   timer_mode ((decrementTimer ^^ 3) (setCountdownTimer (initTimer \<lparr>timer_value = 7,
       timer_enabled = True, interrupt_flag = True, timer_mode = MODE_STOPWATCH\<rparr>) 3)) =
     MODE_COUNTDOWN \<and>
   timer_value ((decrementTimer ^^ 3) (setCountdownTimer (initTimer \<lparr>timer_value = 7,
       timer_enabled = True, interrupt_flag = True, timer_mode = MODE_STOPWATCH\<rparr>) 3)) = 0 \<and>
   \<not> timer_enabled \<lparr>timer_value = 0, timer_enabled = False, interrupt_flag = True,
       timer_mode = MODE_DISABLED\<rparr> \<and>
   triggerInterrupt ((decrementTimer ^^ 3) (setCountdownTimer (initTimer \<lparr>timer_value = 7,
       timer_enabled = True, interrupt_flag = True, timer_mode = MODE_STOPWATCH\<rparr>) 3)) =
     triggerInterrupt \<lparr>timer_value = 0, timer_enabled = False, interrupt_flag = True,
       timer_mode = MODE_DISABLED\<rparr>"
  by (simp add: eval_nat_numeral initTimer_def setCountdownTimer_def decrementTimer_def
      triggerInterrupt_def MAX_DURATION_def word_sless_alt word_sle_eq)

text \<open>
  C3, amended: for every duration d with 1 \<le> d \<le> \<open>MAX_DURATION\<close>, from the initialised
  state, configuring the countdown with d and calling decrement exactly d times leaves
  the counter at 0 with the timer still enabled, in Countdown mode; the interrupt check
  that follows sets the interrupt flag, disables the timer and sets the mode to Disabled.
  In src/timer.c (bound 10) the check returns nothing: the outcome is the state alone.
  Only in the variant without a mode field (bound 255) do \<open>setTimer\<close> and
  \<open>triggerInterrupt\<close> return true.
\<close>

theorem countdown_runs_out_and_fires:
  "(0 <s d \<and> d \<le>s MAX_DURATION \<longrightarrow>
      (decrementTimer ^^ nat (sint d)) (setCountdownTimer (initTimer s0) d) =
        \<lparr>timer_value = 0, timer_enabled = True, interrupt_flag = False,
         timer_mode = MODE_COUNTDOWN\<rparr> \<and>
      triggerInterrupt ((decrementTimer ^^ nat (sint d)) (setCountdownTimer (initTimer s0) d)) =
        \<lparr>timer_value = 0, timer_enabled = False, interrupt_flag = True,
         timer_mode = MODE_DISABLED\<rparr>) \<and>
   (0 <s e \<and> e \<le>s MAX_DURATION_simple \<longrightarrow>
      setTimer (initTimer_simple t0) e =
        (True, \<lparr>Timer_value = e, Timer_enabled = True, Timer_interrupt_flag = False\<rparr>) \<and>
      (decremented ^^ nat (sint e)) (snd (setTimer (initTimer_simple t0) e)) =
        \<lparr>Timer_value = 0, Timer_enabled = True, Timer_interrupt_flag = False\<rparr> \<and>
      triggerInterrupt_simple
        ((decremented ^^ nat (sint e)) (snd (setTimer (initTimer_simple t0) e))) =
        (True, \<lparr>Timer_value = 0, Timer_enabled = False, Timer_interrupt_flag = True\<rparr>))"
proof (intro conjI impI)
  assume d: "0 <s d \<and> d \<le>s MAX_DURATION"
  let ?s = "setCountdownTimer (initTimer s0) d"
  from d have configured: "?s = \<lparr>timer_value = d, timer_enabled = True,
      interrupt_flag = False, timer_mode = MODE_COUNTDOWN\<rparr>"
    by (simp add: setCountdownTimer_def initTimer_def)
  from d have "sint d = int (nat (sint d))" by (simp add: word_sless_alt)
  with configured have "(decrementTimer ^^ nat (sint d)) ?s = ?s\<lparr>timer_value := 0\<rparr>"
    by (intro countdown_runs_out) simp_all
  with configured show "(decrementTimer ^^ nat (sint d)) ?s =
      \<lparr>timer_value = 0, timer_enabled = True, interrupt_flag = False,
       timer_mode = MODE_COUNTDOWN\<rparr>"
    by simp
  then show "triggerInterrupt ((decrementTimer ^^ nat (sint d)) ?s) =
      \<lparr>timer_value = 0, timer_enabled = False, interrupt_flag = True,
       timer_mode = MODE_DISABLED\<rparr>"
    by (simp add: triggerInterrupt_def)
next
  assume e: "0 <s e \<and> e \<le>s MAX_DURATION_simple"
  let ?t = "snd (setTimer (initTimer_simple t0) e)"
  from e show configured: "setTimer (initTimer_simple t0) e =
      (True, \<lparr>Timer_value = e, Timer_enabled = True, Timer_interrupt_flag = False\<rparr>)"
    by (simp add: setTimer_def initTimer_simple_def)
  from e have "sint e = int (nat (sint e))" by (simp add: word_sless_alt)
  with configured have "(decremented ^^ nat (sint e)) ?t = ?t\<lparr>Timer_value := 0\<rparr>"
    by (intro countdown_runs_out_simple) simp_all
  with configured show "(decremented ^^ nat (sint e)) ?t =
      \<lparr>Timer_value = 0, Timer_enabled = True, Timer_interrupt_flag = False\<rparr>"
    by simp
  then show "triggerInterrupt_simple ((decremented ^^ nat (sint e)) ?t) =
      (True, \<lparr>Timer_value = 0, Timer_enabled = False, Timer_interrupt_flag = True\<rparr>)"
    by (simp add: triggerInterrupt_simple_def)
qed

theorem countdown_runs_out_and_fires_witness:
  "(0 <s (3 :: c_int) \<and> 3 \<le>s MAX_DURATION) \<and>
   ((decrementTimer ^^ nat (sint (3 :: c_int)))
      (setCountdownTimer (initTimer \<lparr>timer_value = 7, timer_enabled = True,
         interrupt_flag = True, timer_mode = MODE_STOPWATCH\<rparr>) 3) =
      \<lparr>timer_value = 0, timer_enabled = True, interrupt_flag = False,
         timer_mode = MODE_COUNTDOWN\<rparr> \<and>
    triggerInterrupt ((decrementTimer ^^ nat (sint (3 :: c_int)))
      (setCountdownTimer (initTimer \<lparr>timer_value = 7, timer_enabled = True,
         interrupt_flag = True, timer_mode = MODE_STOPWATCH\<rparr>) 3)) =
      \<lparr>timer_value = 0, timer_enabled = False, interrupt_flag = True,
         timer_mode = MODE_DISABLED\<rparr>) \<and>
   (0 <s (200 :: c_int) \<and> 200 \<le>s MAX_DURATION_simple) \<and>
   (setTimer (initTimer_simple \<lparr>Timer_value = 7, Timer_enabled = True,
         Timer_interrupt_flag = True\<rparr>) 200 =
      (True, \<lparr>Timer_value = 200, Timer_enabled = True, Timer_interrupt_flag = False\<rparr>) \<and>
    (decremented ^^ nat (sint (200 :: c_int)))
      (snd (setTimer (initTimer_simple \<lparr>Timer_value = 7, Timer_enabled = True,
         Timer_interrupt_flag = True\<rparr>) 200)) =
      \<lparr>Timer_value = 0, Timer_enabled = True, Timer_interrupt_flag = False\<rparr> \<and>
    triggerInterrupt_simple ((decremented ^^ nat (sint (200 :: c_int)))
      (snd (setTimer (initTimer_simple \<lparr>Timer_value = 7, Timer_enabled = True,
         Timer_interrupt_flag = True\<rparr>) 200))) =
      (True, \<lparr>Timer_value = 0, Timer_enabled = False, Timer_interrupt_flag = True\<rparr>))"
proof -
  have small: "0 <s (3 :: c_int) \<and> 3 \<le>s MAX_DURATION"
    by (simp add: MAX_DURATION_def word_sless_alt word_sle_eq)
  have large: "0 <s (200 :: c_int) \<and> 200 \<le>s MAX_DURATION_simple"
    by (simp add: MAX_DURATION_simple_def word_sless_alt word_sle_eq)
  from small large
    countdown_runs_out_and_fires [of 3 "\<lparr>timer_value = 7, timer_enabled = True,
       interrupt_flag = True, timer_mode = MODE_STOPWATCH\<rparr>" 200
       "\<lparr>Timer_value = 7, Timer_enabled = True, Timer_interrupt_flag = True\<rparr>"]
  show ?thesis by blast
qed

subsection \<open>C4: a duration out of range is rejected\<close>

text \<open>
  C4 as stated fails in its second half: \<open>setCountdownTimer\<close> of src/timer.c returns
  \<open>void\<close> and reports nothing. In a countdown that holds 5, the rejected duration 11
  and the accepted duration 5 leave the same state, so the caller cannot tell the
  rejection from the state either.
\<close>

theorem setCountdownTimer_reports_nothing:
  "(0 <s (5 :: c_int) \<and> 5 \<le>s MAX_DURATION) \<and>
   \<not> (0 <s (11 :: c_int) \<and> 11 \<le>s MAX_DURATION) \<and>
   setCountdownTimer \<lparr>timer_value = 5, timer_enabled = True, interrupt_flag = False,
       timer_mode = MODE_COUNTDOWN\<rparr> 11 =
     setCountdownTimer \<lparr>timer_value = 5, timer_enabled = True, interrupt_flag = False,
       timer_mode = MODE_COUNTDOWN\<rparr> 5"
  by (simp add: setCountdownTimer_def MAX_DURATION_def word_sless_alt word_sle_eq)

text \<open>
  C4, amended: for every state and every duration outside 1 .. \<open>MAX_DURATION\<close>,
  configuring the countdown leaves every field as it was. \<open>setCountdownTimer\<close> of
  src/timer.c reports nothing. Only \<open>setTimer\<close> of the variant without a mode field
  reports: its result is false for a duration out of range, and true exactly for the
  durations in range.
\<close>

theorem out_of_range_duration_rejected:
  "(\<not> (0 <s d \<and> d \<le>s MAX_DURATION) \<longrightarrow> setCountdownTimer s d = s) \<and>
   (\<not> (0 <s d \<and> d \<le>s MAX_DURATION_simple) \<longrightarrow> setTimer t d = (False, t)) \<and>
   fst (setTimer t d) = (0 <s d \<and> d \<le>s MAX_DURATION_simple)"
  by (simp add: setCountdownTimer_def setTimer_def)

theorem out_of_range_duration_rejected_witness:
  "\<not> (0 <s (0 :: c_int) \<and> 0 \<le>s MAX_DURATION) \<and>
   setCountdownTimer \<lparr>timer_value = 4, timer_enabled = True, interrupt_flag = False,
       timer_mode = MODE_COUNTDOWN\<rparr> 0 =
     \<lparr>timer_value = 4, timer_enabled = True, interrupt_flag = False,
       timer_mode = MODE_COUNTDOWN\<rparr> \<and>
   \<not> (0 <s (0 :: c_int) \<and> 0 \<le>s MAX_DURATION_simple) \<and>
   setTimer \<lparr>Timer_value = 4, Timer_enabled = True, Timer_interrupt_flag = False\<rparr> 0 =
     (False, \<lparr>Timer_value = 4, Timer_enabled = True, Timer_interrupt_flag = False\<rparr>)"
  using out_of_range_duration_rejected [of 0 "\<lparr>timer_value = 4, timer_enabled = True,
       interrupt_flag = False, timer_mode = MODE_COUNTDOWN\<rparr>"
       "\<lparr>Timer_value = 4, Timer_enabled = True, Timer_interrupt_flag = False\<rparr>"]
  by simp

subsection \<open>C5: configuring the stopwatch\<close>

text \<open>
  C5 as stated fails: the source has no function that configures the stopwatch. From a
  freshly initialised timer no call of the interface, whatever its argument, yields the
  state value 0, enabled, flag clear, mode Stopwatch.
\<close>

theorem no_call_configures_stopwatch:
  "\<not> (\<exists>c. call c \<lparr>timer_value = 0, timer_enabled = False, interrupt_flag = False,
            timer_mode = MODE_DISABLED\<rparr> =
          \<lparr>timer_value = 0, timer_enabled = True, interrupt_flag = False,
            timer_mode = MODE_STOPWATCH\<rparr>)"
proof
  let ?s = "\<lparr>timer_value = 0, timer_enabled = False, interrupt_flag = False,
            timer_mode = MODE_DISABLED\<rparr>"
  assume "\<exists>c. call c ?s = \<lparr>timer_value = 0, timer_enabled = True, interrupt_flag = False,
            timer_mode = MODE_STOPWATCH\<rparr>"
  then obtain c where "call c ?s = \<lparr>timer_value = 0, timer_enabled = True,
            interrupt_flag = False, timer_mode = MODE_STOPWATCH\<rparr>" ..
  then have "timer_mode (call c ?s) = MODE_STOPWATCH" by simp
  moreover have "timer_mode (call c ?s) \<noteq> MODE_STOPWATCH"
    by (rule call_not_stopwatch) simp
  ultimately show False by simp
qed

text \<open>
  C5, amended: the program provides no operation that configures the stopwatch. The state
  value 0, enabled, flag clear, mode Stopwatch is a value of \<open>TimerState\<close>, but no call of
  the interface yields it from a state whose mode is not Stopwatch already: a caller
  enters Stopwatch mode only by writing the fields of the struct.
\<close>

theorem stopwatch_start_not_entered:
  assumes "timer_mode s \<noteq> MODE_STOPWATCH"
  shows "call c s \<noteq> \<lparr>timer_value = 0, timer_enabled = True, interrupt_flag = False,
            timer_mode = MODE_STOPWATCH\<rparr>"
proof
  assume "call c s = \<lparr>timer_value = 0, timer_enabled = True, interrupt_flag = False,
            timer_mode = MODE_STOPWATCH\<rparr>"
  then have "timer_mode (call c s) = MODE_STOPWATCH" by simp
  with call_not_stopwatch [OF assms, of c] show False by simp
qed

theorem stopwatch_start_not_entered_witness:
  "timer_mode \<lparr>timer_value = 0, timer_enabled = False, interrupt_flag = False,
       timer_mode = MODE_DISABLED\<rparr> \<noteq> MODE_STOPWATCH \<and>
   call (Call_setCountdownTimer 5) \<lparr>timer_value = 0, timer_enabled = False,
       interrupt_flag = False, timer_mode = MODE_DISABLED\<rparr> \<noteq>
     \<lparr>timer_value = 0, timer_enabled = True, interrupt_flag = False,
       timer_mode = MODE_STOPWATCH\<rparr>"
  using stopwatch_start_not_entered [of "\<lparr>timer_value = 0, timer_enabled = False,
       interrupt_flag = False, timer_mode = MODE_DISABLED\<rparr>" "Call_setCountdownTimer 5"]
  by simp

subsection \<open>C6: the interrupt check is idempotent\<close>

text \<open>
  C6 as stated fails in "returns false": \<open>triggerInterrupt\<close> of src/timer.c returns
  \<open>void\<close>. On a countdown at 0 the first check fires and the second, on a timer no
  longer enabled, does not; the two calls leave the same state, and nothing else tells
  the caller apart the check that fired from the one that did not.
\<close>

theorem triggerInterrupt_second_returns_nothing:
  "(timer_enabled \<lparr>timer_value = 0, timer_enabled = True, interrupt_flag = False,
       timer_mode = MODE_COUNTDOWN\<rparr> \<and>
    timer_mode \<lparr>timer_value = 0, timer_enabled = True, interrupt_flag = False,
       timer_mode = MODE_COUNTDOWN\<rparr> = MODE_COUNTDOWN \<and>
    timer_value \<lparr>timer_value = 0, timer_enabled = True, interrupt_flag = False,
       timer_mode = MODE_COUNTDOWN\<rparr> = 0) \<and>
   \<not> timer_enabled (triggerInterrupt \<lparr>timer_value = 0, timer_enabled = True,
       interrupt_flag = False, timer_mode = MODE_COUNTDOWN\<rparr>) \<and>
   triggerInterrupt (triggerInterrupt \<lparr>timer_value = 0, timer_enabled = True,
       interrupt_flag = False, timer_mode = MODE_COUNTDOWN\<rparr>) =
     triggerInterrupt \<lparr>timer_value = 0, timer_enabled = True, interrupt_flag = False,
       timer_mode = MODE_COUNTDOWN\<rparr>"
  by (simp add: triggerInterrupt_def)

text \<open>
  C6, amended: for every state, after one interrupt check (fired or not) a second one
  changes no field. \<open>triggerInterrupt\<close> of src/timer.c returns nothing; only in the
  variant without a mode field, where the function returns \<open>bool\<close>, does the second
  call return false.
\<close>

theorem triggerInterrupt_twice:
  "triggerInterrupt (triggerInterrupt s) = triggerInterrupt s \<and>
   triggerInterrupt_simple (snd (triggerInterrupt_simple t)) =
     (False, snd (triggerInterrupt_simple t))"
  by (simp add: triggerInterrupt_def triggerInterrupt_simple_def)

subsection \<open>C7: decrement outside its guard\<close>

text \<open>
  C7 as stated fails in "reports a no change status": \<open>decrementTimer\<close> of src/timer.c
  returns \<open>void\<close>. On an enabled countdown at 0 the call changes nothing, on one at 1
  it decrements, and both leave the same state: the caller is not told which happened.
\<close>

theorem decrementTimer_reports_nothing:
  "timer_value \<lparr>timer_value = 0, timer_enabled = True, interrupt_flag = False,
       timer_mode = MODE_COUNTDOWN\<rparr> = 0 \<and>
   decrementTimer \<lparr>timer_value = 0, timer_enabled = True, interrupt_flag = False,
       timer_mode = MODE_COUNTDOWN\<rparr> =
     \<lparr>timer_value = 0, timer_enabled = True, interrupt_flag = False,
       timer_mode = MODE_COUNTDOWN\<rparr> \<and>
   decrementTimer \<lparr>timer_value = 1, timer_enabled = True, interrupt_flag = False,
       timer_mode = MODE_COUNTDOWN\<rparr> \<noteq>
     \<lparr>timer_value = 1, timer_enabled = True, interrupt_flag = False,
       timer_mode = MODE_COUNTDOWN\<rparr> \<and>
   decrementTimer \<lparr>timer_value = 0, timer_enabled = True, interrupt_flag = False,
       timer_mode = MODE_COUNTDOWN\<rparr> =
     decrementTimer \<lparr>timer_value = 1, timer_enabled = True, interrupt_flag = False,
       timer_mode = MODE_COUNTDOWN\<rparr>"
  by (simp add: decrementTimer_def word_sless_alt)

text \<open>
  C7, amended: in every state that is not enabled, or whose mode is not Countdown, or
  whose counter is 0, \<open>decrementTimer\<close> of src/timer.c changes no field, so in Stopwatch
  mode or when disabled it never changes the counter; it reports nothing. Only in the
  variant without a mode field does the function report: it returns false, and changes
  no field, when the timer is disabled or the counter is 0.
\<close>

theorem decrementTimer_guard_noop:
  "(\<not> timer_enabled s \<or> timer_mode s \<noteq> MODE_COUNTDOWN \<or> timer_value s = 0 \<longrightarrow>
      decrementTimer s = s) \<and>
   (\<not> Timer_enabled t \<or> Timer_value t = 0 \<longrightarrow> decrementTimer_simple t = (False, t))"
  by (auto simp add: decrementTimer_def decrementTimer_simple_def)

theorem decrementTimer_guard_noop_witness:
  "timer_mode \<lparr>timer_value = 4, timer_enabled = True, interrupt_flag = False,
       timer_mode = MODE_STOPWATCH\<rparr> \<noteq> MODE_COUNTDOWN \<and>
   decrementTimer \<lparr>timer_value = 4, timer_enabled = True, interrupt_flag = False,
       timer_mode = MODE_STOPWATCH\<rparr> =
     \<lparr>timer_value = 4, timer_enabled = True, interrupt_flag = False,
       timer_mode = MODE_STOPWATCH\<rparr> \<and>
   \<not> Timer_enabled \<lparr>Timer_value = 4, Timer_enabled = False, Timer_interrupt_flag = False\<rparr> \<and>
   decrementTimer_simple
       \<lparr>Timer_value = 4, Timer_enabled = False, Timer_interrupt_flag = False\<rparr> =
     (False, \<lparr>Timer_value = 4, Timer_enabled = False, Timer_interrupt_flag = False\<rparr>)"
  using decrementTimer_guard_noop [of "\<lparr>timer_value = 4, timer_enabled = True,
       interrupt_flag = False, timer_mode = MODE_STOPWATCH\<rparr>"
       "\<lparr>Timer_value = 4, Timer_enabled = False, Timer_interrupt_flag = False\<rparr>"]
  by simp

subsection \<open>C8: reset is initialise\<close>

text \<open>
  C8: from every state, whatever its mode, counter and flags, reset yields the state that
  a fresh initialise yields: counter 0, not enabled, flag clear, mode Disabled. The same
  holds in the variant without a mode field.
\<close>

theorem resetTimer_is_initTimer:
  "resetTimer s = initTimer s' \<and>
   resetTimer s = \<lparr>timer_value = 0, timer_enabled = False, interrupt_flag = False,
     timer_mode = MODE_DISABLED\<rparr> \<and>
   resetTimer_simple t = initTimer_simple t' \<and>
   resetTimer_simple t =
     \<lparr>Timer_value = 0, Timer_enabled = False, Timer_interrupt_flag = False\<rparr>"
  by (simp add: resetTimer_def initTimer_def resetTimer_simple_def initTimer_simple_def)

subsection \<open>C9: a disabled mode is not enabled\<close>

text \<open>
  C9: in every state reached from the initialised state by any sequence of calls, mode
  Disabled implies that the timer is not enabled; and every call preserves that
  implication, from any state in which it holds.
\<close>

theorem disabled_mode_not_enabled:
  "disabled_not_enabled (run cs (initTimer s0)) \<and>
   (disabled_not_enabled s \<longrightarrow> disabled_not_enabled (call c s))"
proof
  have "disabled_not_enabled (initTimer s0)"
    by (simp add: disabled_not_enabled_def initTimer_def)
  then show "disabled_not_enabled (run cs (initTimer s0))"
    by (rule run_disabled_not_enabled)
  show "disabled_not_enabled s \<longrightarrow> disabled_not_enabled (call c s)"
    by (simp add: call_disabled_not_enabled)
qed

theorem disabled_mode_not_enabled_witness:
  "timer_mode (run [Call_setCountdownTimer 1, Call_decrementTimer, Call_triggerInterrupt]
      (initTimer \<lparr>timer_value = 7, timer_enabled = True, interrupt_flag = True,
         timer_mode = MODE_STOPWATCH\<rparr>)) = MODE_DISABLED \<and>
   \<not> timer_enabled (run [Call_setCountdownTimer 1, Call_decrementTimer, Call_triggerInterrupt]
      (initTimer \<lparr>timer_value = 7, timer_enabled = True, interrupt_flag = True,
         timer_mode = MODE_STOPWATCH\<rparr>)) \<and>
   disabled_not_enabled \<lparr>timer_value = 0, timer_enabled = True, interrupt_flag = False,
         timer_mode = MODE_COUNTDOWN\<rparr> \<and>
   timer_mode (call Call_triggerInterrupt \<lparr>timer_value = 0, timer_enabled = True,
         interrupt_flag = False, timer_mode = MODE_COUNTDOWN\<rparr>) = MODE_DISABLED \<and>
   \<not> timer_enabled (call Call_triggerInterrupt \<lparr>timer_value = 0, timer_enabled = True,
         interrupt_flag = False, timer_mode = MODE_COUNTDOWN\<rparr>)"
  using disabled_mode_not_enabled
    [of "[Call_setCountdownTimer 1, Call_decrementTimer, Call_triggerInterrupt]"
      "\<lparr>timer_value = 7, timer_enabled = True, interrupt_flag = True,
         timer_mode = MODE_STOPWATCH\<rparr>"
      "\<lparr>timer_value = 0, timer_enabled = True, interrupt_flag = False,
         timer_mode = MODE_COUNTDOWN\<rparr>" Call_triggerInterrupt]
  by (simp add: disabled_not_enabled_def initTimer_def setCountdownTimer_def decrementTimer_def
      triggerInterrupt_def MAX_DURATION_def word_sless_alt word_sle_eq)

subsection \<open>C10: Stopwatch mode is never entered\<close>

text \<open>
  C10: in src/timer.c no call of the interface sets the mode to Stopwatch: a call from a
  state whose mode is not Stopwatch ends in such a state. So in every state reached from
  the initialised state the mode is not Stopwatch, and \<open>incrementStopwatch\<close> there changes
  no field.
\<close>

theorem stopwatch_mode_unreachable:
  "timer_mode (run cs (initTimer s0)) \<noteq> MODE_STOPWATCH \<and>
   incrementStopwatch (run cs (initTimer s0)) = run cs (initTimer s0) \<and>
   (timer_mode s \<noteq> MODE_STOPWATCH \<longrightarrow> timer_mode (call c s) \<noteq> MODE_STOPWATCH)"
proof -
  have "timer_mode (initTimer s0) \<noteq> MODE_STOPWATCH"
    by (simp add: initTimer_def)
  then have unreachable: "timer_mode (run cs (initTimer s0)) \<noteq> MODE_STOPWATCH"
    by (rule run_not_stopwatch)
  then have "incrementStopwatch (run cs (initTimer s0)) = run cs (initTimer s0)"
    by (simp add: incrementStopwatch_def)
  with unreachable show ?thesis
    by (simp add: call_not_stopwatch)
qed

theorem stopwatch_mode_unreachable_witness:
  "timer_mode (run [Call_setCountdownTimer 2, Call_incrementStopwatch, Call_decrementTimer]
      (initTimer \<lparr>timer_value = 7, timer_enabled = True, interrupt_flag = True,
         timer_mode = MODE_STOPWATCH\<rparr>)) = MODE_COUNTDOWN \<and>
   incrementStopwatch (run [Call_setCountdownTimer 2, Call_incrementStopwatch, Call_decrementTimer]
      (initTimer \<lparr>timer_value = 7, timer_enabled = True, interrupt_flag = True,
         timer_mode = MODE_STOPWATCH\<rparr>)) =
     \<lparr>timer_value = 1, timer_enabled = True, interrupt_flag = False,
         timer_mode = MODE_COUNTDOWN\<rparr> \<and>
   timer_mode \<lparr>timer_value = 0, timer_enabled = False, interrupt_flag = False,
         timer_mode = MODE_DISABLED\<rparr> \<noteq> MODE_STOPWATCH \<and>
   timer_mode (call (Call_setCountdownTimer 4) \<lparr>timer_value = 0, timer_enabled = False,
         interrupt_flag = False, timer_mode = MODE_DISABLED\<rparr>) \<noteq> MODE_STOPWATCH"
  using stopwatch_mode_unreachable
    [of "[Call_setCountdownTimer 2, Call_incrementStopwatch, Call_decrementTimer]"
      "\<lparr>timer_value = 7, timer_enabled = True, interrupt_flag = True,
         timer_mode = MODE_STOPWATCH\<rparr>"
      "\<lparr>timer_value = 0, timer_enabled = False, interrupt_flag = False,
         timer_mode = MODE_DISABLED\<rparr>" "Call_setCountdownTimer 4"]
  by (simp add: initTimer_def setCountdownTimer_def decrementTimer_def incrementStopwatch_def
      MAX_DURATION_def word_sless_alt word_sle_eq)

end
